theory Spec2Isabelle
  imports Main "HOL-Library.Word"
begin

section \<open>Go values\<close>

text \<open>
  The REST client of \<^verbatim>\<open>client/http/client.go\<close> is a facade over an injected handler:
  each method turns its typed arguments into strings or bytes, calls the handler, checks
  the error and converts the reply. The embedding keeps Go's shapes:
  \<^item> a pointer is an \<open>option\<close>, \<open>None\<close> being \<^verbatim>\<open>nil\<close>;
  \<^item> the interface type \<^verbatim>\<open>error\<close> is an \<open>option\<close> too, \<open>None\<close> being the nil error, so
    that a Go result \<^verbatim>\<open>(*T, error)\<close> is a pair and \<^verbatim>\<open>if err != nil\<close> is a test on its
    second component;
  \<^item> a slice is a list, the nil slice being the empty list;
  \<^item> \<^verbatim>\<open>uint64\<close> is a 64-bit word and \<^verbatim>\<open>byte\<close> an 8-bit word;
  \<^item> a run-time panic is an outcome of its own, distinct from every returned value.
\<close>

type_synonym byte = "8 word"
type_synonym uint64 = "64 word"
type_synonym 'a ptr = "'a option"

datatype errorString = ErrorString string
type_synonym error = "errorString option"

datatype panic =
    Panic string
  | IndexOutOfRange nat nat
  | NilDereference

text \<open>
  A method either returns a value or panics; in both cases \<open>final\<close> is the state it
  leaves behind. \<open>IndexOutOfRange i n\<close> is Go's
  \<^verbatim>\<open>index out of range [i] with length n\<close>.
\<close>

datatype ('a, 's) outcome =
    is_Returns: Returns 'a (final: 's)
  | Panics panic (final: 's)

subsection \<open>\<^verbatim>\<open>fmt.Sprintf("%d", n)\<close> for an unsigned integer\<close>

definition digit :: "nat \<Rightarrow> char" where
  "digit d = ''0123456789'' ! d"

function decimal :: "nat \<Rightarrow> string" where
  "decimal n = (if n < 10 then [digit n] else decimal (n div 10) @ [digit (n mod 10)])"
  by pat_completeness auto
termination
  by (relation "measure id") auto

declare decimal.simps [simp del]

definition Sprintf_d :: "uint64 \<Rightarrow> string" where
  "Sprintf_d n = decimal (unat n)"

section \<open>Records of other packages\<close>

text \<open>
  The wire records of package \<^verbatim>\<open>models\<close> and the Cadence values are declared in other
  repositories, and this file never reads inside them, apart from the \<^verbatim>\<open>Result\<close> field of
  a wire transaction. Each is kept as one abstract payload, enough to tell two records
  apart.
\<close>

type_synonym payload = nat

datatype models_Block = Models_Block payload
datatype models_Account = Models_Account payload
datatype models_Collection = Models_Collection payload
datatype models_TransactionResult = Models_TransactionResult payload
datatype models_BlockEvents = Models_BlockEvents payload
datatype cadence_Value = Cadence_Value payload

record models_Transaction =
  Result :: "models_TransactionResult ptr"
  Body :: payload

text \<open>
  Modelled from the spec: the domain records of package \<^verbatim>\<open>flow\<close>, whose declarations are
  not in this file. The data model gives an identifier and an address as fixed-width,
  string-encodable byte values, and a block header as identifier, parent identifier,
  height and timestamp; a block embeds its header (\<^verbatim>\<open>block.BlockHeader\<close> in the code).
  The remaining records are passed through unread and kept as one abstract payload.
\<close>

datatype flow_Identifier = Identifier "byte list"
datatype flow_Address = Address "byte list"

record flow_BlockHeader =
  Header_ID :: flow_Identifier
  Header_ParentID :: flow_Identifier
  Header_Height :: uint64
  Header_Timestamp :: int

record flow_Block =
  BlockHeader :: flow_BlockHeader
  BlockPayload :: payload

datatype flow_Collection = Flow_Collection payload
datatype flow_Transaction = Flow_Transaction payload
datatype flow_TransactionResult = Flow_TransactionResult payload
datatype flow_Account = Flow_Account payload
datatype flow_BlockEvents = Flow_BlockEvents payload
datatype flow_ExecutionResult = Flow_ExecutionResult payload

section \<open>The collaborators\<close>

subsection \<open>Conversion functions\<close>

text \<open>
  The functions of package \<^verbatim>\<open>convert\<close> and the \<^verbatim>\<open>String\<close> methods of \<^verbatim>\<open>flow.Identifier\<close>
  and \<^verbatim>\<open>flow.Address\<close> are called by this file and declared elsewhere. They are
  parameters of the model, with their Go signatures: every theorem below holds for
  whatever they compute.
\<close>

record extern =
  Identifier_String :: "flow_Identifier \<Rightarrow> string"
  Address_String :: "flow_Address \<Rightarrow> string"
  HTTPToBlock :: "models_Block ptr \<Rightarrow> flow_Block ptr \<times> error"
  HTTPToCollection :: "models_Collection ptr \<Rightarrow> flow_Collection ptr"
  TransactionToHTTP :: "flow_Transaction \<Rightarrow> byte list \<times> error"
  HTTPToTransaction :: "models_Transaction ptr \<Rightarrow> flow_Transaction ptr \<times> error"
  HTTPToTransactionResult ::
    "models_TransactionResult ptr \<Rightarrow> flow_TransactionResult ptr \<times> error"
  HTTPToAccount :: "models_Account ptr \<Rightarrow> flow_Account ptr \<times> error"
  CadenceArgsToHTTP :: "cadence_Value option list \<Rightarrow> string list \<times> error"
  ScriptToHTTP :: "byte list \<Rightarrow> string"
  HTTPToCadenceValue :: "string \<Rightarrow> cadence_Value option \<times> error"
  HTTPToBlockEvents :: "models_BlockEvents list \<Rightarrow> flow_BlockEvents list \<times> error"

text \<open>
  Modelled from the spec: \<^verbatim>\<open>convert.SealedToHTTP\<close>, which is not in this file. The spec
  describes it as the boolean-to-height-sentinel mapper, \<^verbatim>\<open>true\<close> to "sealed" and \<^verbatim>\<open>false\<close>
  to "finalized".
\<close>

definition SealedToHTTP :: "bool \<Rightarrow> string" where
  "SealedToHTTP isSealed = (if isSealed then ''sealed'' else ''finalized'')"

subsection \<open>The handler\<close>

text \<open>
  The handler is an interface: an object with a state of its own (\<open>'h\<close>) and nine
  operations, each of which reads and updates that state and returns a Go result. The
  context argument is handed to the handler unchanged by every method and is left out.
\<close>

record 'h handler =
  getBlockByID :: "string \<Rightarrow> 'h \<Rightarrow> (models_Block ptr \<times> error) \<times> 'h"
  getBlockByHeight :: "string \<Rightarrow> 'h \<Rightarrow> (models_Block ptr list \<times> error) \<times> 'h"
  getAccount :: "string \<Rightarrow> string \<Rightarrow> 'h \<Rightarrow> (models_Account ptr \<times> error) \<times> 'h"
  getCollection :: "string \<Rightarrow> 'h \<Rightarrow> (models_Collection ptr \<times> error) \<times> 'h"
  executeScriptAtBlockHeight ::
    "string \<Rightarrow> string \<Rightarrow> string list \<Rightarrow> 'h \<Rightarrow> (string \<times> error) \<times> 'h"
  executeScriptAtBlockID ::
    "string \<Rightarrow> string \<Rightarrow> string list \<Rightarrow> 'h \<Rightarrow> (string \<times> error) \<times> 'h"
  getTransaction :: "string \<Rightarrow> bool \<Rightarrow> 'h \<Rightarrow> (models_Transaction ptr \<times> error) \<times> 'h"
  sendTransaction :: "byte list \<Rightarrow> 'h \<Rightarrow> error \<times> 'h"
  getEvents ::
    "string \<Rightarrow> string \<Rightarrow> string \<Rightarrow> string list \<Rightarrow> 'h
      \<Rightarrow> (models_BlockEvents list \<times> error) \<times> 'h"

text \<open>
  To say how often and with which arguments a method calls the handler, the state of the
  model carries, next to the handler's state, the list of the handler calls made so far.
\<close>

datatype call =
    Call_getBlockByID string
  | Call_getBlockByHeight string
  | Call_getAccount string string
  | Call_getCollection string
  | Call_executeScriptAtBlockHeight string string "string list"
  | Call_executeScriptAtBlockID string string "string list"
  | Call_getTransaction string bool
  | Call_sendTransaction "byte list"
  | Call_getEvents string string string "string list"

record 'h world =
  hstate :: 'h
  calls :: "call list"

definition invoke :: "call \<Rightarrow> ('h \<Rightarrow> 'r \<times> 'h) \<Rightarrow> 'h world \<Rightarrow> 'r \<times> 'h world" where
  "invoke c f w =
     (case f (hstate w) of (r, h') \<Rightarrow> (r, \<lparr>hstate = h', calls = calls w @ [c]\<rparr>))"

section \<open>The client\<close>

record 'h Client =
  handler :: "'h handler"

definition NewClient :: "'h handler \<Rightarrow> 'h Client" where
  "NewClient h = \<lparr>handler = h\<rparr>"

definition Ping :: "'h Client \<Rightarrow> 'h world \<Rightarrow> (error, 'h world) outcome" where
  "Ping c w = Panics (Panic ''implement me'') w"

definition GetBlockByID ::
  "extern \<Rightarrow> 'h Client \<Rightarrow> flow_Identifier \<Rightarrow> 'h world
    \<Rightarrow> (flow_Block ptr \<times> error, 'h world) outcome" where
  "GetBlockByID x c blockID w =
     (case invoke (Call_getBlockByID (Identifier_String x blockID))
             (getBlockByID (handler c) (Identifier_String x blockID)) w of
        ((block, err), w') \<Rightarrow>
          if err \<noteq> None then Returns (None, err) w'
          else Returns (HTTPToBlock x block) w')"

definition GetLatestBlock ::
  "extern \<Rightarrow> 'h Client \<Rightarrow> bool \<Rightarrow> 'h world \<Rightarrow> (flow_Block ptr \<times> error, 'h world) outcome" where
  "GetLatestBlock x c isSealed w =
     (case invoke (Call_getBlockByHeight (SealedToHTTP isSealed))
             (getBlockByHeight (handler c) (SealedToHTTP isSealed)) w of
        ((blocks, err), w') \<Rightarrow>
          if err \<noteq> None then Returns (None, err) w'
          else (case blocks of
                  [] \<Rightarrow> Panics (IndexOutOfRange 0 0) w'
                | b # _ \<Rightarrow> Returns (HTTPToBlock x b) w'))"

definition GetBlockByHeight ::
  "extern \<Rightarrow> 'h Client \<Rightarrow> uint64 \<Rightarrow> 'h world \<Rightarrow> (flow_Block ptr \<times> error, 'h world) outcome" where
  "GetBlockByHeight x c height w =
     (case invoke (Call_getBlockByHeight (Sprintf_d height))
             (getBlockByHeight (handler c) (Sprintf_d height)) w of
        ((blocks, err), w') \<Rightarrow>
          if err \<noteq> None then Returns (None, err) w'
          else (case blocks of
                  [] \<Rightarrow> Panics (IndexOutOfRange 0 0) w'
                | b # _ \<Rightarrow> Returns (HTTPToBlock x b) w'))"

text \<open>
  \<^verbatim>\<open>&block.BlockHeader\<close> reads through the pointer \<^verbatim>\<open>block\<close>: on a nil pointer Go panics.
  A panic of the called method unwinds through the caller, which has no \<^verbatim>\<open>recover\<close>.
\<close>

definition GetLatestBlockHeader ::
  "extern \<Rightarrow> 'h Client \<Rightarrow> bool \<Rightarrow> 'h world
    \<Rightarrow> (flow_BlockHeader ptr \<times> error, 'h world) outcome" where
  "GetLatestBlockHeader x c isSealed w =
     (case GetLatestBlock x c isSealed w of
        Panics p w' \<Rightarrow> Panics p w'
      | Returns (block, err) w' \<Rightarrow>
          if err \<noteq> None then Returns (None, err) w'
          else (case block of
                  None \<Rightarrow> Panics NilDereference w'
                | Some b \<Rightarrow> Returns (Some (BlockHeader b), None) w'))"

definition GetBlockHeaderByID ::
  "extern \<Rightarrow> 'h Client \<Rightarrow> flow_Identifier \<Rightarrow> 'h world
    \<Rightarrow> (flow_BlockHeader ptr \<times> error, 'h world) outcome" where
  "GetBlockHeaderByID x c blockID w =
     (case GetBlockByID x c blockID w of
        Panics p w' \<Rightarrow> Panics p w'
      | Returns (block, err) w' \<Rightarrow>
          if err \<noteq> None then Returns (None, err) w'
          else (case block of
                  None \<Rightarrow> Panics NilDereference w'
                | Some b \<Rightarrow> Returns (Some (BlockHeader b), None) w'))"

definition GetBlockHeaderByHeight ::
  "extern \<Rightarrow> 'h Client \<Rightarrow> uint64 \<Rightarrow> 'h world
    \<Rightarrow> (flow_BlockHeader ptr \<times> error, 'h world) outcome" where
  "GetBlockHeaderByHeight x c height w =
     (case GetBlockByHeight x c height w of
        Panics p w' \<Rightarrow> Panics p w'
      | Returns (block, err) w' \<Rightarrow>
          if err \<noteq> None then Returns (None, err) w'
          else (case block of
                  None \<Rightarrow> Panics NilDereference w'
                | Some b \<Rightarrow> Returns (Some (BlockHeader b), None) w'))"

definition GetCollection ::
  "extern \<Rightarrow> 'h Client \<Rightarrow> flow_Identifier \<Rightarrow> 'h world
    \<Rightarrow> (flow_Collection ptr \<times> error, 'h world) outcome" where
  "GetCollection x c ID w =
     (case invoke (Call_getCollection (Identifier_String x ID))
             (getCollection (handler c) (Identifier_String x ID)) w of
        ((collection, err), w') \<Rightarrow>
          if err \<noteq> None then Returns (None, err) w'
          else Returns (HTTPToCollection x collection, None) w')"

definition SendTransaction ::
  "extern \<Rightarrow> 'h Client \<Rightarrow> flow_Transaction \<Rightarrow> 'h world \<Rightarrow> (error, 'h world) outcome" where
  "SendTransaction x c tx w =
     (case TransactionToHTTP x tx of
        (convertedTx, err) \<Rightarrow>
          if err \<noteq> None then Returns err w
          else (case invoke (Call_sendTransaction convertedTx)
                       (sendTransaction (handler c) convertedTx) w of
                  (err', w') \<Rightarrow> Returns err' w'))"

definition GetTransaction ::
  "extern \<Rightarrow> 'h Client \<Rightarrow> flow_Identifier \<Rightarrow> 'h world
    \<Rightarrow> (flow_Transaction ptr \<times> error, 'h world) outcome" where
  "GetTransaction x c ID w =
     (case invoke (Call_getTransaction (Identifier_String x ID) False)
             (getTransaction (handler c) (Identifier_String x ID) False) w of
        ((tx, err), w') \<Rightarrow>
          if err \<noteq> None then Returns (None, err) w'
          else Returns (HTTPToTransaction x tx) w')"

text \<open>\<^verbatim>\<open>tx.Result\<close> reads through the pointer \<^verbatim>\<open>tx\<close>, and panics when it is nil.\<close>

definition GetTransactionResult ::
  "extern \<Rightarrow> 'h Client \<Rightarrow> flow_Identifier \<Rightarrow> 'h world
    \<Rightarrow> (flow_TransactionResult ptr \<times> error, 'h world) outcome" where
  "GetTransactionResult x c ID w =
     (case invoke (Call_getTransaction (Identifier_String x ID) True)
             (getTransaction (handler c) (Identifier_String x ID) True) w of
        ((tx, err), w') \<Rightarrow>
          if err \<noteq> None then Returns (None, err) w'
          else (case tx of
                  None \<Rightarrow> Panics NilDereference w'
                | Some t \<Rightarrow> Returns (HTTPToTransactionResult x (Result t)) w'))"

definition SEALED_HEIGHT :: string where
  "SEALED_HEIGHT = ''sealed''"

definition GetAccount ::
  "extern \<Rightarrow> 'h Client \<Rightarrow> flow_Address \<Rightarrow> 'h world
    \<Rightarrow> (flow_Account ptr \<times> error, 'h world) outcome" where
  "GetAccount x c address w =
     (case invoke (Call_getAccount (Address_String x address) SEALED_HEIGHT)
             (getAccount (handler c) (Address_String x address) SEALED_HEIGHT) w of
        ((account, err), w') \<Rightarrow>
          if err \<noteq> None then Returns (None, err) w'
          else Returns (HTTPToAccount x account) w')"

definition GetAccountAtLatestBlock ::
  "extern \<Rightarrow> 'h Client \<Rightarrow> flow_Address \<Rightarrow> 'h world
    \<Rightarrow> (flow_Account ptr \<times> error, 'h world) outcome" where
  "GetAccountAtLatestBlock x c address w = GetAccount x c address w"

definition GetAccountAtBlockHeight ::
  "extern \<Rightarrow> 'h Client \<Rightarrow> flow_Address \<Rightarrow> uint64 \<Rightarrow> 'h world
    \<Rightarrow> (flow_Account ptr \<times> error, 'h world) outcome" where
  "GetAccountAtBlockHeight x c address blockHeight w =
     (case invoke (Call_getAccount (Address_String x address) (Sprintf_d blockHeight))
             (getAccount (handler c) (Address_String x address) (Sprintf_d blockHeight)) w of
        ((account, err), w') \<Rightarrow>
          if err \<noteq> None then Returns (None, err) w'
          else Returns (HTTPToAccount x account) w')"

definition ExecuteScriptAtLatestBlock ::
  "extern \<Rightarrow> 'h Client \<Rightarrow> byte list \<Rightarrow> cadence_Value option list \<Rightarrow> 'h world
    \<Rightarrow> (cadence_Value option \<times> error, 'h world) outcome" where
  "ExecuteScriptAtLatestBlock x c script arguments w =
     (case CadenceArgsToHTTP x arguments of
        (args, err) \<Rightarrow>
          if err \<noteq> None then Returns (None, err) w
          else (case invoke (Call_executeScriptAtBlockHeight SEALED_HEIGHT
                          (ScriptToHTTP x script) args)
                       (executeScriptAtBlockHeight (handler c) SEALED_HEIGHT
                          (ScriptToHTTP x script) args) w of
                  ((result, err'), w') \<Rightarrow>
                    if err' \<noteq> None then Returns (None, err') w'
                    else Returns (HTTPToCadenceValue x result) w'))"

definition ExecuteScriptAtBlockID ::
  "extern \<Rightarrow> 'h Client \<Rightarrow> flow_Identifier \<Rightarrow> byte list \<Rightarrow> cadence_Value option list
    \<Rightarrow> 'h world \<Rightarrow> (cadence_Value option \<times> error, 'h world) outcome" where
  "ExecuteScriptAtBlockID x c blockID script arguments w =
     (case CadenceArgsToHTTP x arguments of
        (args, err) \<Rightarrow>
          if err \<noteq> None then Returns (None, err) w
          else (case invoke (Call_executeScriptAtBlockID (Identifier_String x blockID)
                          (ScriptToHTTP x script) args)
                       (executeScriptAtBlockID (handler c) (Identifier_String x blockID)
                          (ScriptToHTTP x script) args) w of
                  ((result, err'), w') \<Rightarrow>
                    if err' \<noteq> None then Returns (None, err') w'
                    else Returns (HTTPToCadenceValue x result) w'))"

definition ExecuteScriptAtBlockHeight ::
  "extern \<Rightarrow> 'h Client \<Rightarrow> uint64 \<Rightarrow> byte list \<Rightarrow> cadence_Value option list
    \<Rightarrow> 'h world \<Rightarrow> (cadence_Value option \<times> error, 'h world) outcome" where
  "ExecuteScriptAtBlockHeight x c height script arguments w =
     (case CadenceArgsToHTTP x arguments of
        (args, err) \<Rightarrow>
          if err \<noteq> None then Returns (None, err) w
          else (case invoke (Call_executeScriptAtBlockHeight (Sprintf_d height)
                          (ScriptToHTTP x script) args)
                       (executeScriptAtBlockHeight (handler c) (Sprintf_d height)
                          (ScriptToHTTP x script) args) w of
                  ((result, err'), w') \<Rightarrow>
                    if err' \<noteq> None then Returns (None, err') w'
                    else Returns (HTTPToCadenceValue x result) w'))"

definition GetEventsForHeightRange ::
  "extern \<Rightarrow> 'h Client \<Rightarrow> string \<Rightarrow> uint64 \<Rightarrow> uint64 \<Rightarrow> 'h world
    \<Rightarrow> (flow_BlockEvents list \<times> error, 'h world) outcome" where
  "GetEventsForHeightRange x c eventType startHeight endHeight w =
     (case invoke (Call_getEvents eventType (Sprintf_d startHeight) (Sprintf_d endHeight) [])
             (getEvents (handler c) eventType (Sprintf_d startHeight) (Sprintf_d endHeight) [])
             w of
        ((events, err), w') \<Rightarrow>
          if err \<noteq> None then Returns ([], err) w'
          else Returns (HTTPToBlockEvents x events) w')"

text \<open>
  The loop \<^verbatim>\<open>for i, id := range blockIDs { ids[i] = id.String() }\<close> (its \<^verbatim>\<open>id\<close> is \<open>blockID\<close> here) over the slice
  \<^verbatim>\<open>make([]string, len(blockIDs))\<close>: \<open>i\<close> is the index reached, the list the identifiers
  still to visit.
\<close>

fun ids_loop :: "extern \<Rightarrow> nat \<Rightarrow> flow_Identifier list \<Rightarrow> string list \<Rightarrow> string list" where
  "ids_loop x i [] ids = ids"
| "ids_loop x i (blockID # rest) ids =
     ids_loop x (Suc i) rest (ids[i := Identifier_String x blockID])"

definition GetEventsForBlockIDs ::
  "extern \<Rightarrow> 'h Client \<Rightarrow> string \<Rightarrow> flow_Identifier list \<Rightarrow> 'h world
    \<Rightarrow> (flow_BlockEvents list \<times> error, 'h world) outcome" where
  "GetEventsForBlockIDs x c eventType blockIDs w =
     (let ids = ids_loop x 0 blockIDs (replicate (length blockIDs) [])
      in case invoke (Call_getEvents eventType [] [] ids)
                (getEvents (handler c) eventType [] [] ids) w of
           ((events, err), w') \<Rightarrow>
             if err \<noteq> None then Returns ([], err) w'
             else Returns (HTTPToBlockEvents x events) w')"

definition GetLatestProtocolStateSnapshot ::
  "'h Client \<Rightarrow> 'h world \<Rightarrow> (byte list \<times> error, 'h world) outcome" where
  "GetLatestProtocolStateSnapshot c w = Panics (Panic ''implement me'') w"

definition GetExecutionResultForBlockID ::
  "'h Client \<Rightarrow> flow_Identifier \<Rightarrow> 'h world
    \<Rightarrow> (flow_ExecutionResult ptr \<times> error, 'h world) outcome" where
  "GetExecutionResultForBlockID c blockID w = Panics (Panic ''implement me'') w"

text \<open>
  The four constructors \<^verbatim>\<open>NewDefaultEmulatorClient\<close>, \<^verbatim>\<open>NewDefaultTestnetClient\<close>,
  \<^verbatim>\<open>NewDefaultCanaryClient\<close> and \<^verbatim>\<open>NewDefaultMainnetClient\<close> build a handler with
  \<^verbatim>\<open>newHandler\<close>, which is declared elsewhere, and wrap it with \<^verbatim>\<open>NewClient\<close>; nothing
  below depends on them.
\<close>

section \<open>Notions used to state the properties\<close>

text \<open>
  A handler call combines the two filter modes of the events query when it carries a
  height bound (a start or an end) together with at least one block identifier.
\<close>

fun combines_filter_modes :: "call \<Rightarrow> bool" where
  "combines_filter_modes (Call_getEvents eventType start end' blockIDs) =
     ((start \<noteq> [] \<or> end' \<noteq> []) \<and> blockIDs \<noteq> [])"
| "combines_filter_modes _ = False"

text \<open>Reading a decimal string back, to say that \<open>decimal\<close> writes the number it is given.\<close>

definition digit_value :: "char \<Rightarrow> nat" where
  "digit_value ch = of_char ch - 48"

definition parse_decimal :: "string \<Rightarrow> nat" where
  "parse_decimal s = foldl (\<lambda>acc ch. 10 * acc + digit_value ch) 0 s"

section \<open>Test doubles\<close>

text \<open>
  A handler that counts its calls in its state and answers every query with a canned
  wire record, one that fails every query, and one whose by-height query succeeds with
  an empty sequence; and one choice of the conversion functions.
\<close>

definition canned_handler :: "nat handler" where
  "canned_handler =
     \<lparr>getBlockByID = (\<lambda>ID h. ((Some (Models_Block 1), None), Suc h)),
      getBlockByHeight =
        (\<lambda>height h. (([Some (Models_Block 2), Some (Models_Block 3)], None), Suc h)),
      getAccount = (\<lambda>address height h. ((Some (Models_Account 4), None), Suc h)),
      getCollection = (\<lambda>ID h. ((Some (Models_Collection 5), None), Suc h)),
      executeScriptAtBlockHeight = (\<lambda>height script arguments h. ((''42'', None), Suc h)),
      executeScriptAtBlockID = (\<lambda>ID script arguments h. ((''42'', None), Suc h)),
      getTransaction =
        (\<lambda>ID includeResult h.
           ((Some \<lparr>Result = (if includeResult then Some (Models_TransactionResult 6) else None),
                    Body = 7\<rparr>, None), Suc h)),
      sendTransaction = (\<lambda>transaction h. (None, Suc h)),
      getEvents =
        (\<lambda>eventType start end' blockIDs h. (([Models_BlockEvents 8], None), Suc h))\<rparr>"

definition unavailable :: error where
  "unavailable = Some (ErrorString ''unavailable'')"

definition failing_handler :: "nat handler" where
  "failing_handler =
     \<lparr>getBlockByID = (\<lambda>ID h. ((None, unavailable), Suc h)),
      getBlockByHeight = (\<lambda>height h. (([], unavailable), Suc h)),
      getAccount = (\<lambda>address height h. ((None, unavailable), Suc h)),
      getCollection = (\<lambda>ID h. ((None, unavailable), Suc h)),
      executeScriptAtBlockHeight = (\<lambda>height script arguments h. (([], unavailable), Suc h)),
      executeScriptAtBlockID = (\<lambda>ID script arguments h. (([], unavailable), Suc h)),
      getTransaction = (\<lambda>ID includeResult h. ((None, unavailable), Suc h)),
      sendTransaction = (\<lambda>transaction h. (unavailable, Suc h)),
      getEvents = (\<lambda>eventType start end' blockIDs h. (([], unavailable), Suc h))\<rparr>"

definition empty_handler :: "nat handler" where
  "empty_handler = canned_handler\<lparr>getBlockByHeight := (\<lambda>height h. (([], None), Suc h))\<rparr>"

definition fresh :: "nat world" where
  "fresh = \<lparr>hstate = 0, calls = []\<rparr>"

definition hex :: "byte list \<Rightarrow> string" where
  "hex bs =
     concat (map (\<lambda>b. [''0123456789abcdef'' ! (unat b div 16),
                         ''0123456789abcdef'' ! (unat b mod 16)]) bs)"

definition block_of :: "payload \<Rightarrow> flow_Block" where
  "block_of n =
     \<lparr>BlockHeader =
        \<lparr>Header_ID = Identifier [], Header_ParentID = Identifier [],
         Header_Height = of_nat n, Header_Timestamp = 0\<rparr>,
      BlockPayload = n\<rparr>"

definition test_extern :: extern where
  "test_extern =
     \<lparr>Identifier_String = (\<lambda>i. case i of Identifier bs \<Rightarrow> hex bs),
      Address_String = (\<lambda>a. case a of Address bs \<Rightarrow> hex bs),
      HTTPToBlock =
        (\<lambda>p. case p of
               None \<Rightarrow> (None, Some (ErrorString ''nil block''))
             | Some (Models_Block n) \<Rightarrow> (Some (block_of n), None)),
      HTTPToCollection =
        (\<lambda>p. case p of
               None \<Rightarrow> None
             | Some (Models_Collection n) \<Rightarrow> Some (Flow_Collection n)),
      TransactionToHTTP =
        (\<lambda>t. case t of Flow_Transaction n \<Rightarrow>
               if n = 0 then ([], Some (ErrorString ''empty transaction''))
               else ([of_nat n], None)),
      HTTPToTransaction =
        (\<lambda>p. case p of
               None \<Rightarrow> (None, Some (ErrorString ''nil transaction''))
             | Some t \<Rightarrow> (Some (Flow_Transaction (Body t)), None)),
      HTTPToTransactionResult =
        (\<lambda>p. case p of
               None \<Rightarrow> (None, Some (ErrorString ''nil result''))
             | Some (Models_TransactionResult n) \<Rightarrow> (Some (Flow_TransactionResult n), None)),
      HTTPToAccount =
        (\<lambda>p. case p of
               None \<Rightarrow> (None, Some (ErrorString ''nil account''))
             | Some (Models_Account n) \<Rightarrow> (Some (Flow_Account n), None)),
      CadenceArgsToHTTP =
        (\<lambda>arguments.
           if list_ex (\<lambda>a. a = None) arguments
           then ([], Some (ErrorString ''cannot encode nil''))
           else (map (\<lambda>a. case a of None \<Rightarrow> [] | Some (Cadence_Value n) \<Rightarrow> decimal n)
                   arguments, None)),
      ScriptToHTTP = hex,
      HTTPToCadenceValue =
        (\<lambda>s. if s = [] then (None, Some (ErrorString ''empty value''))
             else (Some (Cadence_Value (length s)), None)),
      HTTPToBlockEvents =
        (\<lambda>es. (map (\<lambda>e. case e of Models_BlockEvents n \<Rightarrow> Flow_BlockEvents n) es, None))\<rparr>"

section \<open>Auxiliary facts\<close>

lemma invoke_eq:
  "invoke c f w = (fst (f (hstate w)), \<lparr>hstate = snd (f (hstate w)), calls = calls w @ [c]\<rparr>)"
  by (simp add: invoke_def split: prod.split)

text \<open>
  The loop of \<^verbatim>\<open>GetEventsForBlockIDs\<close> fills the slice from index \<open>i\<close> on and leaves the
  part before it alone; started at 0 on a slice of the right length it computes the
  string encodings of the identifiers, in order.
\<close>

lemma ids_loop_take:
  "length ids = i + length rest \<Longrightarrow>
   ids_loop x i rest ids = take i ids @ map (Identifier_String x) rest"
proof (induction rest arbitrary: i ids)
  case Nil
  then show ?case by simp
next
  case (Cons blockID rest)
  have lt: "i < length ids"
    using Cons.prems by simp
  have len: "length (ids[i := Identifier_String x blockID]) = Suc i + length rest"
    using Cons.prems by simp
  have "take (Suc i) (ids[i := Identifier_String x blockID]) =
        take i ids @ [Identifier_String x blockID]"
    using lt by (simp add: take_Suc_conv_app_nth)
  with Cons.IH [OF len] show ?case by simp
qed

lemma ids_loop_map:
  "ids_loop x 0 blockIDs (replicate (length blockIDs) []) = map (Identifier_String x) blockIDs"
  by (simp add: ids_loop_take)

text \<open>
  \<open>decimal\<close> is never empty and reads back as the number written, so \<open>Sprintf_d\<close> is the
  decimal string of the value of its argument.
\<close>

lemma digit_value_digit: "d < 10 \<Longrightarrow> digit_value (digit d) = d"
proof -
  assume "d < 10"
  then have "d \<in> {0, 1, 2, 3, 4, 5, 6, 7, 8, 9}"
    by auto
  then show ?thesis
    by (auto simp: digit_def digit_value_def)
qed

lemma parse_decimal_snoc:
  "parse_decimal (s @ [ch]) = 10 * parse_decimal s + digit_value ch"
  by (simp add: parse_decimal_def)

lemma parse_decimal_decimal: "parse_decimal (decimal n) = n"
proof (induction n rule: decimal.induct)
  case (1 n)
  show ?case
  proof (cases "n < 10")
    case True
    then show ?thesis
      by (simp add: decimal.simps [of n] parse_decimal_def digit_value_digit)
  next
    case False
    with "1" have "parse_decimal (decimal (n div 10)) = n div 10"
      by simp
    with False show ?thesis
      by (simp add: decimal.simps [of n] parse_decimal_snoc digit_value_digit)
  qed
qed

lemma decimal_not_empty: "decimal n \<noteq> []"
  by (simp add: decimal.simps [of n])

lemma Sprintf_d_roundtrip: "parse_decimal (Sprintf_d n) = unat n"
  by (simp add: Sprintf_d_def parse_decimal_decimal)

lemma Sprintf_d_7: "Sprintf_d 7 = ''7''"
  by code_simp

lemma Sprintf_d_10: "Sprintf_d 10 = ''10''"
  by code_simp

lemma Sprintf_d_20: "Sprintf_d 20 = ''20''"
  by code_simp

lemma hex_ab: "hex [0xAB] = ''ab''"
  by (simp add: hex_def)

text \<open>The handler calls of the two event queries.\<close>

lemma GetEventsForHeightRange_calls:
  "calls (final (GetEventsForHeightRange x c eventType startHeight endHeight w)) =
     calls w @ [Call_getEvents eventType (Sprintf_d startHeight) (Sprintf_d endHeight) []]"
  by (simp add: GetEventsForHeightRange_def invoke_eq split: prod.split)

lemma GetEventsForBlockIDs_calls:
  "calls (final (GetEventsForBlockIDs x c eventType blockIDs w)) =
     calls w @ [Call_getEvents eventType [] [] (map (Identifier_String x) blockIDs)]"
  by (simp add: GetEventsForBlockIDs_def ids_loop_map invoke_eq Let_def split: prod.split)

text \<open>The script methods, once the arguments are encoded.\<close>

lemma ExecuteScriptAtBlockHeight_reply:
  "CadenceArgsToHTTP x arguments = (args, None) \<Longrightarrow>
   executeScriptAtBlockHeight (handler c) (Sprintf_d height) (ScriptToHTTP x script) args
     (hstate w) = ((result, err), h') \<Longrightarrow>
   ExecuteScriptAtBlockHeight x c height script arguments w =
     Returns (if err \<noteq> None then (None, err) else HTTPToCadenceValue x result)
       \<lparr>hstate = h',
        calls = calls w @
          [Call_executeScriptAtBlockHeight (Sprintf_d height) (ScriptToHTTP x script) args]\<rparr>"
  by (simp add: ExecuteScriptAtBlockHeight_def invoke_eq)

lemma ExecuteScriptAtLatestBlock_reply:
  "CadenceArgsToHTTP x arguments = (args, None) \<Longrightarrow>
   executeScriptAtBlockHeight (handler c) ''sealed'' (ScriptToHTTP x script) args
     (hstate w) = ((result, err), h') \<Longrightarrow>
   ExecuteScriptAtLatestBlock x c script arguments w =
     Returns (if err \<noteq> None then (None, err) else HTTPToCadenceValue x result)
       \<lparr>hstate = h',
        calls = calls w @
          [Call_executeScriptAtBlockHeight ''sealed'' (ScriptToHTTP x script) args]\<rparr>"
  by (simp add: ExecuteScriptAtLatestBlock_def SEALED_HEIGHT_def invoke_eq)

lemma ExecuteScriptAtBlockID_reply:
  "CadenceArgsToHTTP x arguments = (args, None) \<Longrightarrow>
   executeScriptAtBlockID (handler c) (Identifier_String x blockID) (ScriptToHTTP x script) args
     (hstate w) = ((result, err), h') \<Longrightarrow>
   ExecuteScriptAtBlockID x c blockID script arguments w =
     Returns (if err \<noteq> None then (None, err) else HTTPToCadenceValue x result)
       \<lparr>hstate = h',
        calls = calls w @
          [Call_executeScriptAtBlockID (Identifier_String x blockID)
             (ScriptToHTTP x script) args]\<rparr>"
  by (simp add: ExecuteScriptAtBlockID_def invoke_eq)

text \<open>The block methods on the test doubles.\<close>

lemma canned_GetLatestBlock:
  "GetLatestBlock test_extern (NewClient canned_handler) True fresh =
     Returns (Some (block_of 2), None) \<lparr>hstate = 1, calls = [Call_getBlockByHeight ''sealed'']\<rparr>"
  by (simp add: GetLatestBlock_def SealedToHTTP_def invoke_def canned_handler_def
      NewClient_def fresh_def test_extern_def)

lemma canned_GetBlockByID:
  "GetBlockByID test_extern (NewClient canned_handler) (Identifier [0xAB]) fresh =
     Returns (Some (block_of 1), None) \<lparr>hstate = 1, calls = [Call_getBlockByID ''ab'']\<rparr>"
  by (simp add: GetBlockByID_def invoke_def canned_handler_def NewClient_def fresh_def
      test_extern_def hex_ab)

lemma canned_GetBlockByHeight:
  "GetBlockByHeight test_extern (NewClient canned_handler) 7 fresh =
     Returns (Some (block_of 2), None) \<lparr>hstate = 1, calls = [Call_getBlockByHeight ''7'']\<rparr>"
  by (simp add: GetBlockByHeight_def invoke_def canned_handler_def NewClient_def fresh_def
      test_extern_def Sprintf_d_7)

lemma failing_GetLatestBlock:
  "GetLatestBlock test_extern (NewClient failing_handler) False fresh =
     Returns (None, Some (ErrorString ''unavailable''))
       \<lparr>hstate = 1, calls = [Call_getBlockByHeight ''finalized'']\<rparr>"
  by (simp add: GetLatestBlock_def SealedToHTTP_def invoke_def failing_handler_def
      unavailable_def NewClient_def fresh_def)

lemma empty_GetBlockByHeight:
  "GetBlockByHeight test_extern (NewClient empty_handler) 7 fresh =
     Panics (IndexOutOfRange 0 0) \<lparr>hstate = 1, calls = [Call_getBlockByHeight ''7'']\<rparr>"
  by (simp add: GetBlockByHeight_def invoke_def empty_handler_def canned_handler_def
      NewClient_def fresh_def Sprintf_d_7)

text \<open>
  Where a collaborator hands back a nil pointer together with a nil error, the two
  methods that read through the pointer panic: \<^verbatim>\<open>GetTransactionResult\<close> on a nil wire
  transaction, a header method on a nil block.
\<close>

lemma GetTransactionResult_nil_transaction:
  "getTransaction (handler c) (Identifier_String x ID) True (hstate w) = ((None, None), h') \<Longrightarrow>
   GetTransactionResult x c ID w =
     Panics NilDereference
       \<lparr>hstate = h', calls = calls w @ [Call_getTransaction (Identifier_String x ID) True]\<rparr>"
  by (simp add: GetTransactionResult_def invoke_eq)

lemma header_of_nil_block:
  "GetLatestBlock x c isSealed w = Returns (None, None) w' \<Longrightarrow>
     GetLatestBlockHeader x c isSealed w = Panics NilDereference w'"
  "GetBlockByID x c blockID w = Returns (None, None) w' \<Longrightarrow>
     GetBlockHeaderByID x c blockID w = Panics NilDereference w'"
  "GetBlockByHeight x c height w = Returns (None, None) w' \<Longrightarrow>
     GetBlockHeaderByHeight x c height w = Panics NilDereference w'"
  by (simp_all add: GetLatestBlockHeader_def GetBlockHeaderByID_def GetBlockHeaderByHeight_def)

section \<open>The claims\<close>

text \<open>
  C1. The claim: when the handler answers a by-height query with no error and an empty
  sequence, \<^verbatim>\<open>GetLatestBlock\<close> and \<^verbatim>\<open>GetBlockByHeight\<close> fail with a not-found error
  instead of faulting. The code indexes \<^verbatim>\<open>blocks[0]\<close> without looking at the length: on
  \<open>empty_handler\<close>, whose by-height query succeeds with an empty sequence, both methods
  panic with an index out of range after their one handler call, and return nothing.
\<close>

theorem by_height_empty_result_panics:
  "GetBlockByHeight test_extern (NewClient empty_handler) 7 fresh =
     Panics (IndexOutOfRange 0 0) \<lparr>hstate = 1, calls = [Call_getBlockByHeight ''7'']\<rparr>
   \<and> GetLatestBlock test_extern (NewClient empty_handler) True fresh =
     Panics (IndexOutOfRange 0 0) \<lparr>hstate = 1, calls = [Call_getBlockByHeight ''sealed'']\<rparr>"
  by (simp add: GetBlockByHeight_def GetLatestBlock_def invoke_def empty_handler_def
      canned_handler_def NewClient_def fresh_def Sprintf_d_7 SealedToHTTP_def)

text \<open>
  C2. The claim: each of \<^verbatim>\<open>Ping\<close>, \<^verbatim>\<open>GetLatestProtocolStateSnapshot\<close> and
  \<^verbatim>\<open>GetExecutionResultForBlockID\<close> returns a not-implemented failure value and does not
  crash. The code panics instead: no value is returned to the caller at all.
\<close>

theorem unimplemented_return_counterexample:
  "\<not> is_Returns (Ping (NewClient canned_handler) fresh)
   \<and> \<not> is_Returns (GetLatestProtocolStateSnapshot (NewClient canned_handler) fresh)
   \<and> \<not> is_Returns
         (GetExecutionResultForBlockID (NewClient canned_handler) (Identifier [0xAB]) fresh)"
  by (simp add: Ping_def GetLatestProtocolStateSnapshot_def GetExecutionResultForBlockID_def)

text \<open>
  C2, as the code has it. For every client and every state, each of the three methods
  panics with the message "implement me", without calling the handler and without
  touching the state: an explicit signal, never a returned error and never a default
  value.
\<close>

theorem unimplemented_methods_panic:
  "Ping c w = Panics (Panic ''implement me'') w
   \<and> GetLatestProtocolStateSnapshot c w = Panics (Panic ''implement me'') w
   \<and> GetExecutionResultForBlockID c blockID w = Panics (Panic ''implement me'') w"
  by (simp add: Ping_def GetLatestProtocolStateSnapshot_def GetExecutionResultForBlockID_def)

text \<open>
  C3. The three script methods encode the argument list first. When the encoding reports
  an error, each method returns a nil value and that error, and the state is the one it
  started from: no handler call has been made. When the encoding succeeds, the single
  handler call that follows carries the encoded arguments (with the decimal height, the
  "sealed" sentinel or the identifier's string, and the converted script), and what the
  handler answers to exactly that call decides the outcome: its value converted on
  success, its error unchanged on failure, and its state.
\<close>

theorem ExecuteScript_encodes_first:
  "(CadenceArgsToHTTP x arguments = (args, Some e) \<longrightarrow>
      ExecuteScriptAtBlockHeight x c height script arguments w = Returns (None, Some e) w
      \<and> ExecuteScriptAtLatestBlock x c script arguments w = Returns (None, Some e) w
      \<and> ExecuteScriptAtBlockID x c blockID script arguments w = Returns (None, Some e) w)
   \<and> (CadenceArgsToHTTP x arguments = (args, None) \<longrightarrow>
      calls (final (ExecuteScriptAtBlockHeight x c height script arguments w)) =
        calls w @ [Call_executeScriptAtBlockHeight (Sprintf_d height) (ScriptToHTTP x script) args]
      \<and> calls (final (ExecuteScriptAtLatestBlock x c script arguments w)) =
        calls w @ [Call_executeScriptAtBlockHeight ''sealed'' (ScriptToHTTP x script) args]
      \<and> calls (final (ExecuteScriptAtBlockID x c blockID script arguments w)) =
        calls w @ [Call_executeScriptAtBlockID (Identifier_String x blockID)
                     (ScriptToHTTP x script) args])
   \<and> (CadenceArgsToHTTP x arguments = (args, None) \<longrightarrow>
      executeScriptAtBlockHeight (handler c) (Sprintf_d height) (ScriptToHTTP x script) args
        (hstate w) = ((result, err), h') \<longrightarrow>
      ExecuteScriptAtBlockHeight x c height script arguments w =
        Returns (if err \<noteq> None then (None, err) else HTTPToCadenceValue x result)
          \<lparr>hstate = h',
           calls = calls w @
             [Call_executeScriptAtBlockHeight (Sprintf_d height) (ScriptToHTTP x script) args]\<rparr>)
   \<and> (CadenceArgsToHTTP x arguments = (args, None) \<longrightarrow>
      executeScriptAtBlockHeight (handler c) ''sealed'' (ScriptToHTTP x script) args
        (hstate w) = ((result, err), h') \<longrightarrow>
      ExecuteScriptAtLatestBlock x c script arguments w =
        Returns (if err \<noteq> None then (None, err) else HTTPToCadenceValue x result)
          \<lparr>hstate = h',
           calls = calls w @
             [Call_executeScriptAtBlockHeight ''sealed'' (ScriptToHTTP x script) args]\<rparr>)
   \<and> (CadenceArgsToHTTP x arguments = (args, None) \<longrightarrow>
      executeScriptAtBlockID (handler c) (Identifier_String x blockID) (ScriptToHTTP x script)
        args (hstate w) = ((result, err), h') \<longrightarrow>
      ExecuteScriptAtBlockID x c blockID script arguments w =
        Returns (if err \<noteq> None then (None, err) else HTTPToCadenceValue x result)
          \<lparr>hstate = h',
           calls = calls w @
             [Call_executeScriptAtBlockID (Identifier_String x blockID)
                (ScriptToHTTP x script) args]\<rparr>)"
proof -
  have first:
    "(CadenceArgsToHTTP x arguments = (args, Some e) \<longrightarrow>
        ExecuteScriptAtBlockHeight x c height script arguments w = Returns (None, Some e) w
        \<and> ExecuteScriptAtLatestBlock x c script arguments w = Returns (None, Some e) w
        \<and> ExecuteScriptAtBlockID x c blockID script arguments w = Returns (None, Some e) w)
     \<and> (CadenceArgsToHTTP x arguments = (args, None) \<longrightarrow>
        calls (final (ExecuteScriptAtBlockHeight x c height script arguments w)) =
          calls w @
            [Call_executeScriptAtBlockHeight (Sprintf_d height) (ScriptToHTTP x script) args]
        \<and> calls (final (ExecuteScriptAtLatestBlock x c script arguments w)) =
          calls w @ [Call_executeScriptAtBlockHeight ''sealed'' (ScriptToHTTP x script) args]
        \<and> calls (final (ExecuteScriptAtBlockID x c blockID script arguments w)) =
          calls w @ [Call_executeScriptAtBlockID (Identifier_String x blockID)
                       (ScriptToHTTP x script) args])"
    by (simp add: ExecuteScriptAtBlockHeight_def ExecuteScriptAtLatestBlock_def
        ExecuteScriptAtBlockID_def SEALED_HEIGHT_def invoke_eq split: prod.split)
  show ?thesis
    using first ExecuteScriptAtBlockHeight_reply [of x arguments args c height script w result err h']
      ExecuteScriptAtLatestBlock_reply [of x arguments args c script w result err h']
      ExecuteScriptAtBlockID_reply [of x arguments args c blockID script w result err h']
    by blast
qed

theorem ExecuteScript_encodes_first_witness:
  "ExecuteScriptAtBlockHeight test_extern (NewClient canned_handler) 7 [0xAB]
       [Some (Cadence_Value 2), None] fresh =
     Returns (None, Some (ErrorString ''cannot encode nil'')) fresh
   \<and> ExecuteScriptAtLatestBlock test_extern (NewClient canned_handler) [0xAB]
       [Some (Cadence_Value 2), None] fresh =
     Returns (None, Some (ErrorString ''cannot encode nil'')) fresh
   \<and> ExecuteScriptAtBlockID test_extern (NewClient canned_handler) (Identifier [0xAB]) [0xAB]
       [Some (Cadence_Value 2), None] fresh =
     Returns (None, Some (ErrorString ''cannot encode nil'')) fresh
   \<and> calls (final (ExecuteScriptAtBlockHeight test_extern (NewClient canned_handler) 7 [0xAB]
       [Some (Cadence_Value 7)] fresh)) =
     [Call_executeScriptAtBlockHeight ''7'' ''ab'' [''7'']]
   \<and> calls (final (ExecuteScriptAtLatestBlock test_extern (NewClient canned_handler) [0xAB]
       [Some (Cadence_Value 7)] fresh)) =
     [Call_executeScriptAtBlockHeight ''sealed'' ''ab'' [''7'']]
   \<and> calls (final (ExecuteScriptAtBlockID test_extern (NewClient canned_handler)
       (Identifier [0xAB]) [0xAB] [Some (Cadence_Value 7)] fresh)) =
     [Call_executeScriptAtBlockID ''ab'' ''ab'' [''7'']]
   \<and> ExecuteScriptAtBlockHeight test_extern (NewClient canned_handler) 7 [0xAB]
       [Some (Cadence_Value 7)] fresh =
     Returns (Some (Cadence_Value 2), None)
       \<lparr>hstate = 1, calls = [Call_executeScriptAtBlockHeight ''7'' ''ab'' [''7'']]\<rparr>
   \<and> ExecuteScriptAtLatestBlock test_extern (NewClient canned_handler) [0xAB]
       [Some (Cadence_Value 7)] fresh =
     Returns (Some (Cadence_Value 2), None)
       \<lparr>hstate = 1, calls = [Call_executeScriptAtBlockHeight ''sealed'' ''ab'' [''7'']]\<rparr>
   \<and> ExecuteScriptAtBlockID test_extern (NewClient canned_handler) (Identifier [0xAB]) [0xAB]
       [Some (Cadence_Value 7)] fresh =
     Returns (Some (Cadence_Value 2), None)
       \<lparr>hstate = 1, calls = [Call_executeScriptAtBlockID ''ab'' ''ab'' [''7'']]\<rparr>
   \<and> ExecuteScriptAtBlockHeight test_extern (NewClient failing_handler) 7 [0xAB]
       [Some (Cadence_Value 7)] fresh =
     Returns (None, Some (ErrorString ''unavailable''))
       \<lparr>hstate = 1, calls = [Call_executeScriptAtBlockHeight ''7'' ''ab'' [''7'']]\<rparr>"
proof -
  have d7: "decimal 7 = ''7''"
    by code_simp
  have bad: "CadenceArgsToHTTP test_extern [Some (Cadence_Value 2), None] =
               ([], Some (ErrorString ''cannot encode nil''))"
    by (simp add: test_extern_def)
  have good: "CadenceArgsToHTTP test_extern [Some (Cadence_Value 7)] = ([''7''], None)"
    by (simp add: test_extern_def d7)
  have enc: "ScriptToHTTP test_extern [0xAB] = ''ab''"
    "Identifier_String test_extern (Identifier [0xAB]) = ''ab''"
    by (simp_all add: test_extern_def hex_ab)
  have reply: "HTTPToCadenceValue test_extern ''42'' = (Some (Cadence_Value 2), None)"
    by (simp add: test_extern_def)
  show ?thesis
    using
      ExecuteScript_encodes_first [where x = test_extern and c = "NewClient canned_handler"
        and height = 7 and script = "[0xAB]" and blockID = "Identifier [0xAB]" and w = fresh
        and arguments = "[Some (Cadence_Value 2), None]" and args = "[]"
        and e = "ErrorString ''cannot encode nil''"]
      ExecuteScript_encodes_first [where x = test_extern and c = "NewClient canned_handler"
        and height = 7 and script = "[0xAB]" and blockID = "Identifier [0xAB]" and w = fresh
        and arguments = "[Some (Cadence_Value 7)]" and args = "[''7'']"
        and result = "''42''" and err = None and h' = 1]
      ExecuteScript_encodes_first [where x = test_extern and c = "NewClient failing_handler"
        and height = 7 and script = "[0xAB]" and blockID = "Identifier [0xAB]" and w = fresh
        and arguments = "[Some (Cadence_Value 7)]" and args = "[''7'']"
        and result = "[]" and err = "Some (ErrorString ''unavailable'')" and h' = 1]
    by (simp add: bad good enc reply Sprintf_d_7 fresh_def canned_handler_def
        failing_handler_def unavailable_def NewClient_def)
qed

text \<open>
  C4. For either value of \<^verbatim>\<open>isSealed\<close>, \<^verbatim>\<open>GetLatestBlock\<close> makes exactly one handler
  call, a by-height query with the sentinel "sealed" for true and "finalized" for false;
  and when the handler answers with no error and a sequence that has a first element,
  the method returns the conversion of that first element.
\<close>

theorem GetLatestBlock_sentinel_first:
  "calls (final (GetLatestBlock x c isSealed w)) =
     calls w @ [Call_getBlockByHeight (if isSealed then ''sealed'' else ''finalized'')]
   \<and> (getBlockByHeight (handler c) (if isSealed then ''sealed'' else ''finalized'') (hstate w) =
         ((b # bs, None), h') \<longrightarrow>
       GetLatestBlock x c isSealed w =
         Returns (HTTPToBlock x b)
           \<lparr>hstate = h',
            calls = calls w @
              [Call_getBlockByHeight (if isSealed then ''sealed'' else ''finalized'')]\<rparr>)"
  by (simp add: GetLatestBlock_def SealedToHTTP_def invoke_eq split: prod.split list.split)

theorem GetLatestBlock_sentinel_first_witness:
  "GetLatestBlock test_extern (NewClient canned_handler) True fresh =
     Returns (Some (block_of 2), None) \<lparr>hstate = 1, calls = [Call_getBlockByHeight ''sealed'']\<rparr>
   \<and> GetLatestBlock test_extern (NewClient canned_handler) False fresh =
     Returns (Some (block_of 2), None)
       \<lparr>hstate = 1, calls = [Call_getBlockByHeight ''finalized'']\<rparr>"
  using
    GetLatestBlock_sentinel_first [where x = test_extern and c = "NewClient canned_handler"
      and isSealed = True and w = fresh and b = "Some (Models_Block 2)"
      and bs = "[Some (Models_Block 3)]" and h' = 1]
    GetLatestBlock_sentinel_first [where x = test_extern and c = "NewClient canned_handler"
      and isSealed = False and w = fresh and b = "Some (Models_Block 2)"
      and bs = "[Some (Models_Block 3)]" and h' = 1]
  by (simp add: canned_handler_def fresh_def test_extern_def NewClient_def)

text \<open>
  C5. \<^verbatim>\<open>GetEventsForHeightRange\<close> applies the handler's events query to the event type,
  the decimal strings of the two heights and an empty identifier list;
  \<^verbatim>\<open>GetEventsForBlockIDs\<close> applies it to the event type, empty start and end strings
  and the string encodings of the identifiers in order. Whatever the
  handler answers to exactly that query decides the outcome: its events converted on
  success, its error unchanged on failure, and its state. Each method makes that one
  call, and neither call combines the two filter modes: no call made by either method has
  both a height bound and an identifier.
\<close>

theorem GetEvents_filter_modes:
  "(getEvents (handler c) eventType (Sprintf_d startHeight) (Sprintf_d endHeight) [] (hstate w) =
       ((events, None), h') \<longrightarrow>
      GetEventsForHeightRange x c eventType startHeight endHeight w =
        Returns (HTTPToBlockEvents x events)
          \<lparr>hstate = h',
           calls = calls w @
             [Call_getEvents eventType (Sprintf_d startHeight) (Sprintf_d endHeight) []]\<rparr>)
   \<and> (getEvents (handler c) eventType (Sprintf_d startHeight) (Sprintf_d endHeight) [] (hstate w) =
       ((events, Some e), h') \<longrightarrow>
      GetEventsForHeightRange x c eventType startHeight endHeight w =
        Returns ([], Some e)
          \<lparr>hstate = h',
           calls = calls w @
             [Call_getEvents eventType (Sprintf_d startHeight) (Sprintf_d endHeight) []]\<rparr>)
   \<and> (getEvents (handler c) eventType [] [] (map (Identifier_String x) blockIDs) (hstate w) =
       ((events, None), h') \<longrightarrow>
      GetEventsForBlockIDs x c eventType blockIDs w =
        Returns (HTTPToBlockEvents x events)
          \<lparr>hstate = h',
           calls = calls w @
             [Call_getEvents eventType [] [] (map (Identifier_String x) blockIDs)]\<rparr>)
   \<and> (getEvents (handler c) eventType [] [] (map (Identifier_String x) blockIDs) (hstate w) =
       ((events, Some e), h') \<longrightarrow>
      GetEventsForBlockIDs x c eventType blockIDs w =
        Returns ([], Some e)
          \<lparr>hstate = h',
           calls = calls w @
             [Call_getEvents eventType [] [] (map (Identifier_String x) blockIDs)]\<rparr>)
   \<and> calls (final (GetEventsForHeightRange x c eventType startHeight endHeight w)) =
     calls w @ [Call_getEvents eventType (Sprintf_d startHeight) (Sprintf_d endHeight) []]
   \<and> calls (final (GetEventsForBlockIDs x c eventType blockIDs w)) =
     calls w @ [Call_getEvents eventType [] [] (map (Identifier_String x) blockIDs)]
   \<and> filter combines_filter_modes
       (drop (length (calls w))
          (calls (final (GetEventsForHeightRange x c eventType startHeight endHeight w)))) = []
   \<and> filter combines_filter_modes
       (drop (length (calls w))
          (calls (final (GetEventsForBlockIDs x c eventType blockIDs w)))) = []"
proof -
  have range_ok:
    "getEvents (handler c) eventType (Sprintf_d startHeight) (Sprintf_d endHeight) [] (hstate w) =
       ((events, None), h') \<longrightarrow>
     GetEventsForHeightRange x c eventType startHeight endHeight w =
       Returns (HTTPToBlockEvents x events)
         \<lparr>hstate = h',
          calls = calls w @
            [Call_getEvents eventType (Sprintf_d startHeight) (Sprintf_d endHeight) []]\<rparr>"
    by (simp add: GetEventsForHeightRange_def invoke_eq)
  have range_err:
    "getEvents (handler c) eventType (Sprintf_d startHeight) (Sprintf_d endHeight) [] (hstate w) =
       ((events, Some e), h') \<longrightarrow>
     GetEventsForHeightRange x c eventType startHeight endHeight w =
       Returns ([], Some e)
         \<lparr>hstate = h',
          calls = calls w @
            [Call_getEvents eventType (Sprintf_d startHeight) (Sprintf_d endHeight) []]\<rparr>"
    by (simp add: GetEventsForHeightRange_def invoke_eq)
  have ids_ok:
    "getEvents (handler c) eventType [] [] (map (Identifier_String x) blockIDs) (hstate w) =
       ((events, None), h') \<longrightarrow>
     GetEventsForBlockIDs x c eventType blockIDs w =
       Returns (HTTPToBlockEvents x events)
         \<lparr>hstate = h',
          calls = calls w @
            [Call_getEvents eventType [] [] (map (Identifier_String x) blockIDs)]\<rparr>"
    by (simp add: GetEventsForBlockIDs_def ids_loop_map invoke_eq Let_def)
  have ids_err:
    "getEvents (handler c) eventType [] [] (map (Identifier_String x) blockIDs) (hstate w) =
       ((events, Some e), h') \<longrightarrow>
     GetEventsForBlockIDs x c eventType blockIDs w =
       Returns ([], Some e)
         \<lparr>hstate = h',
          calls = calls w @
            [Call_getEvents eventType [] [] (map (Identifier_String x) blockIDs)]\<rparr>"
    by (simp add: GetEventsForBlockIDs_def ids_loop_map invoke_eq Let_def)
  show ?thesis
    using range_ok range_err ids_ok ids_err
    by (simp add: GetEventsForHeightRange_calls GetEventsForBlockIDs_calls)
qed

theorem GetEvents_filter_modes_witness:
  "GetEventsForHeightRange test_extern (NewClient canned_handler) ''A.Deposit'' 10 20 fresh =
     Returns ([Flow_BlockEvents 8], None)
       \<lparr>hstate = 1, calls = [Call_getEvents ''A.Deposit'' ''10'' ''20'' []]\<rparr>
   \<and> GetEventsForBlockIDs test_extern (NewClient canned_handler) ''A.Deposit''
       [Identifier [0xAB], Identifier [0x01, 0xFF]] fresh =
     Returns ([Flow_BlockEvents 8], None)
       \<lparr>hstate = 1, calls = [Call_getEvents ''A.Deposit'' [] [] [''ab'', ''01ff'']]\<rparr>
   \<and> GetEventsForHeightRange test_extern (NewClient failing_handler) ''A.Deposit'' 10 20 fresh =
     Returns ([], Some (ErrorString ''unavailable''))
       \<lparr>hstate = 1, calls = [Call_getEvents ''A.Deposit'' ''10'' ''20'' []]\<rparr>
   \<and> GetEventsForBlockIDs test_extern (NewClient failing_handler) ''A.Deposit''
       [Identifier [0xAB], Identifier [0x01, 0xFF]] fresh =
     Returns ([], Some (ErrorString ''unavailable''))
       \<lparr>hstate = 1, calls = [Call_getEvents ''A.Deposit'' [] [] [''ab'', ''01ff'']]\<rparr>"
  using
    GetEvents_filter_modes [where x = test_extern and c = "NewClient canned_handler"
      and eventType = "''A.Deposit''" and startHeight = 10 and endHeight = 20
      and blockIDs = "[Identifier [0xAB], Identifier [0x01, 0xFF]]" and w = fresh
      and events = "[Models_BlockEvents 8]" and h' = 1]
    GetEvents_filter_modes [where x = test_extern and c = "NewClient failing_handler"
      and eventType = "''A.Deposit''" and startHeight = 10 and endHeight = 20
      and blockIDs = "[Identifier [0xAB], Identifier [0x01, 0xFF]]" and w = fresh
      and events = "[]" and e = "ErrorString ''unavailable''" and h' = 1]
  by (simp add: canned_handler_def failing_handler_def unavailable_def fresh_def
      test_extern_def NewClient_def hex_def Sprintf_d_10 Sprintf_d_20)

text \<open>
  C6. \<^verbatim>\<open>SendTransaction\<close> encodes the transaction first. When the encoding reports an
  error, that error is returned and the state is untouched: no handler call. Otherwise
  the method makes exactly one handler call, the submit operation with the encoded
  bytes, and returns exactly what the handler returned: nil when the handler succeeds,
  the handler's error otherwise. Nothing is converted on the way back.
\<close>

theorem SendTransaction_submits_bytes:
  "(TransactionToHTTP x tx = (convertedTx, Some e) \<longrightarrow>
      SendTransaction x c tx w = Returns (Some e) w)
   \<and> (TransactionToHTTP x tx = (convertedTx, None) \<longrightarrow>
      sendTransaction (handler c) convertedTx (hstate w) = (err, h') \<longrightarrow>
      SendTransaction x c tx w =
        Returns err \<lparr>hstate = h', calls = calls w @ [Call_sendTransaction convertedTx]\<rparr>)"
  by (simp add: SendTransaction_def invoke_eq split: prod.split)

theorem SendTransaction_submits_bytes_witness:
  "SendTransaction test_extern (NewClient canned_handler) (Flow_Transaction 0) fresh =
     Returns (Some (ErrorString ''empty transaction'')) fresh
   \<and> SendTransaction test_extern (NewClient canned_handler) (Flow_Transaction 5) fresh =
     Returns None \<lparr>hstate = 1, calls = [Call_sendTransaction [5]]\<rparr>
   \<and> SendTransaction test_extern (NewClient failing_handler) (Flow_Transaction 5) fresh =
     Returns (Some (ErrorString ''unavailable''))
       \<lparr>hstate = 1, calls = [Call_sendTransaction [5]]\<rparr>"
  using
    SendTransaction_submits_bytes [where x = test_extern and c = "NewClient canned_handler"
      and tx = "Flow_Transaction 0" and w = fresh and convertedTx = "[]"
      and e = "ErrorString ''empty transaction''"]
    SendTransaction_submits_bytes [where x = test_extern and c = "NewClient canned_handler"
      and tx = "Flow_Transaction 5" and w = fresh and convertedTx = "[5]" and err = None
      and h' = 1]
    SendTransaction_submits_bytes [where x = test_extern and c = "NewClient failing_handler"
      and tx = "Flow_Transaction 5" and w = fresh and convertedTx = "[5]"
      and err = "Some (ErrorString ''unavailable'')" and h' = 1]
  by (simp add: canned_handler_def failing_handler_def unavailable_def fresh_def
      test_extern_def NewClient_def)

text \<open>
  C7. For every identifier, \<^verbatim>\<open>GetTransaction\<close> and \<^verbatim>\<open>GetTransactionResult\<close> each make
  exactly one handler call, the same by-identifier transaction query, with the
  include-result flag false for the first and true for the second. On a handler error
  both return nil and that error. On success the first converts the wire transaction
  itself, the second the \<^verbatim>\<open>Result\<close> field of the wire transaction the handler returned.
\<close>

theorem GetTransaction_and_Result:
  "calls (final (GetTransaction x c ID w)) =
     calls w @ [Call_getTransaction (Identifier_String x ID) False]
   \<and> calls (final (GetTransactionResult x c ID w)) =
     calls w @ [Call_getTransaction (Identifier_String x ID) True]
   \<and> (getTransaction (handler c) (Identifier_String x ID) False (hstate w) = ((tx, None), h') \<longrightarrow>
        GetTransaction x c ID w =
          Returns (HTTPToTransaction x tx)
            \<lparr>hstate = h',
             calls = calls w @ [Call_getTransaction (Identifier_String x ID) False]\<rparr>)
   \<and> (getTransaction (handler c) (Identifier_String x ID) True (hstate w) = ((Some t, None), h') \<longrightarrow>
        GetTransactionResult x c ID w =
          Returns (HTTPToTransactionResult x (Result t))
            \<lparr>hstate = h',
             calls = calls w @ [Call_getTransaction (Identifier_String x ID) True]\<rparr>)
   \<and> (getTransaction (handler c) (Identifier_String x ID) False (hstate w) = ((tx, Some e), h') \<longrightarrow>
        GetTransaction x c ID w =
          Returns (None, Some e)
            \<lparr>hstate = h',
             calls = calls w @ [Call_getTransaction (Identifier_String x ID) False]\<rparr>)
   \<and> (getTransaction (handler c) (Identifier_String x ID) True (hstate w) = ((tx, Some e), h') \<longrightarrow>
        GetTransactionResult x c ID w =
          Returns (None, Some e)
            \<lparr>hstate = h',
             calls = calls w @ [Call_getTransaction (Identifier_String x ID) True]\<rparr>)"
  by (simp add: GetTransaction_def GetTransactionResult_def invoke_eq
      split: prod.split option.split)

theorem GetTransaction_and_Result_witness:
  "GetTransaction test_extern (NewClient canned_handler) (Identifier [0xAB]) fresh =
     Returns (Some (Flow_Transaction 7), None)
       \<lparr>hstate = 1, calls = [Call_getTransaction ''ab'' False]\<rparr>
   \<and> GetTransactionResult test_extern (NewClient canned_handler) (Identifier [0xAB]) fresh =
     Returns (Some (Flow_TransactionResult 6), None)
       \<lparr>hstate = 1, calls = [Call_getTransaction ''ab'' True]\<rparr>
   \<and> GetTransaction test_extern (NewClient failing_handler) (Identifier [0xAB]) fresh =
     Returns (None, Some (ErrorString ''unavailable''))
       \<lparr>hstate = 1, calls = [Call_getTransaction ''ab'' False]\<rparr>
   \<and> GetTransactionResult test_extern (NewClient failing_handler) (Identifier [0xAB]) fresh =
     Returns (None, Some (ErrorString ''unavailable''))
       \<lparr>hstate = 1, calls = [Call_getTransaction ''ab'' True]\<rparr>"
  using
    GetTransaction_and_Result [where x = test_extern and c = "NewClient canned_handler"
      and ID = "Identifier [0xAB]" and w = fresh and h' = 1
      and tx = "Some \<lparr>Result = None, Body = 7\<rparr>"
      and t = "\<lparr>Result = Some (Models_TransactionResult 6), Body = 7\<rparr>"]
    GetTransaction_and_Result [where x = test_extern and c = "NewClient failing_handler"
      and ID = "Identifier [0xAB]" and w = fresh and h' = 1 and tx = None
      and e = "ErrorString ''unavailable''"]
  by (simp add: canned_handler_def failing_handler_def unavailable_def fresh_def
      test_extern_def NewClient_def hex_ab)

text \<open>
  C8. For every identifier, \<^verbatim>\<open>GetBlockByID\<close> makes exactly one handler call, a
  by-identifier query with the identifier's string encoding. When the handler reports no
  error the method returns the conversion of the handler's block, whatever that block
  is; when the handler reports an error, the method returns a nil block and that very
  error.
\<close>

theorem GetBlockByID_one_call:
  "calls (final (GetBlockByID x c blockID w)) =
     calls w @ [Call_getBlockByID (Identifier_String x blockID)]
   \<and> (getBlockByID (handler c) (Identifier_String x blockID) (hstate w) = ((block, None), h') \<longrightarrow>
        GetBlockByID x c blockID w =
          Returns (HTTPToBlock x block)
            \<lparr>hstate = h', calls = calls w @ [Call_getBlockByID (Identifier_String x blockID)]\<rparr>)
   \<and> (getBlockByID (handler c) (Identifier_String x blockID) (hstate w) = ((block, Some e), h') \<longrightarrow>
        GetBlockByID x c blockID w =
          Returns (None, Some e)
            \<lparr>hstate = h', calls = calls w @ [Call_getBlockByID (Identifier_String x blockID)]\<rparr>)"
  by (simp add: GetBlockByID_def invoke_eq split: prod.split)

theorem GetBlockByID_one_call_witness:
  "GetBlockByID test_extern (NewClient canned_handler) (Identifier [0xAB]) fresh =
     Returns (Some (block_of 1), None) \<lparr>hstate = 1, calls = [Call_getBlockByID ''ab'']\<rparr>
   \<and> GetBlockByID test_extern (NewClient failing_handler) (Identifier [0xAB]) fresh =
     Returns (None, Some (ErrorString ''unavailable''))
       \<lparr>hstate = 1, calls = [Call_getBlockByID ''ab'']\<rparr>"
  using
    GetBlockByID_one_call [where x = test_extern and c = "NewClient canned_handler"
      and blockID = "Identifier [0xAB]" and w = fresh and block = "Some (Models_Block 1)"
      and h' = 1]
    GetBlockByID_one_call [where x = test_extern and c = "NewClient failing_handler"
      and blockID = "Identifier [0xAB]" and w = fresh and block = None
      and e = "ErrorString ''unavailable''" and h' = 1]
  by (simp add: canned_handler_def failing_handler_def unavailable_def fresh_def
      test_extern_def NewClient_def hex_ab)

text \<open>
  C9. \<^verbatim>\<open>GetAccount\<close> makes one handler call, the account query with the address's
  string encoding and the sentinel "sealed"; \<^verbatim>\<open>GetAccountAtBlockHeight\<close> makes one, with
  the address's string encoding and the decimal string of the block height. In both,
  when the handler reports no error, the wire account is converted to the domain account.
\<close>

theorem GetAccount_heights:
  "calls (final (GetAccount x c address w)) =
     calls w @ [Call_getAccount (Address_String x address) ''sealed'']
   \<and> calls (final (GetAccountAtBlockHeight x c address blockHeight w)) =
     calls w @ [Call_getAccount (Address_String x address) (Sprintf_d blockHeight)]
   \<and> (getAccount (handler c) (Address_String x address) ''sealed'' (hstate w) =
         ((account, None), h') \<longrightarrow>
        GetAccount x c address w =
          Returns (HTTPToAccount x account)
            \<lparr>hstate = h',
             calls = calls w @ [Call_getAccount (Address_String x address) ''sealed'']\<rparr>)
   \<and> (getAccount (handler c) (Address_String x address) (Sprintf_d blockHeight) (hstate w) =
         ((account, None), h') \<longrightarrow>
        GetAccountAtBlockHeight x c address blockHeight w =
          Returns (HTTPToAccount x account)
            \<lparr>hstate = h',
             calls = calls w @
               [Call_getAccount (Address_String x address) (Sprintf_d blockHeight)]\<rparr>)"
  by (simp add: GetAccount_def GetAccountAtBlockHeight_def SEALED_HEIGHT_def invoke_eq
      split: prod.split)

theorem GetAccount_heights_witness:
  "GetAccount test_extern (NewClient canned_handler) (Address [0xAB]) fresh =
     Returns (Some (Flow_Account 4), None)
       \<lparr>hstate = 1, calls = [Call_getAccount ''ab'' ''sealed'']\<rparr>
   \<and> GetAccountAtBlockHeight test_extern (NewClient canned_handler) (Address [0xAB]) 20 fresh =
     Returns (Some (Flow_Account 4), None)
       \<lparr>hstate = 1, calls = [Call_getAccount ''ab'' ''20'']\<rparr>"
  using
    GetAccount_heights [where x = test_extern and c = "NewClient canned_handler"
      and address = "Address [0xAB]" and blockHeight = 20 and w = fresh and h' = 1
      and account = "Some (Models_Account 4)"]
  by (simp add: canned_handler_def fresh_def test_extern_def NewClient_def hex_ab
      Sprintf_d_20)

text \<open>
  C10. Each header method does what the matching block method does and keeps the header
  only. Whenever \<^verbatim>\<open>GetLatestBlock\<close>, \<^verbatim>\<open>GetBlockByID\<close> or \<^verbatim>\<open>GetBlockByHeight\<close> returns a
  block with no error, \<^verbatim>\<open>GetLatestBlockHeader\<close>, \<^verbatim>\<open>GetBlockHeaderByID\<close> or
  \<^verbatim>\<open>GetBlockHeaderByHeight\<close> returns exactly the \<^verbatim>\<open>BlockHeader\<close> field of that block;
  whenever the block method returns an error, the header method returns a nil header and
  exactly that error; whenever the block method panics, so does the header method, in the
  same way. In all three cases the state left behind, and with it the handler calls
  made, is the block method's. \<^verbatim>\<open>GetAccountAtLatestBlock\<close> is \<^verbatim>\<open>GetAccount\<close>.
  (A block method that returns neither a block nor an error has no header to give; see
  \<open>header_of_nil_block\<close>.)
\<close>

theorem header_methods_follow_block_methods:
  "(GetLatestBlock x c isSealed w = Returns (Some b, None) w' \<longrightarrow>
      GetLatestBlockHeader x c isSealed w = Returns (Some (BlockHeader b), None) w')
   \<and> (GetLatestBlock x c isSealed w = Returns (block, Some e) w' \<longrightarrow>
      GetLatestBlockHeader x c isSealed w = Returns (None, Some e) w')
   \<and> (GetLatestBlock x c isSealed w = Panics p w' \<longrightarrow>
      GetLatestBlockHeader x c isSealed w = Panics p w')
   \<and> (GetBlockByID x c blockID w = Returns (Some b, None) w' \<longrightarrow>
      GetBlockHeaderByID x c blockID w = Returns (Some (BlockHeader b), None) w')
   \<and> (GetBlockByID x c blockID w = Returns (block, Some e) w' \<longrightarrow>
      GetBlockHeaderByID x c blockID w = Returns (None, Some e) w')
   \<and> (GetBlockByID x c blockID w = Panics p w' \<longrightarrow>
      GetBlockHeaderByID x c blockID w = Panics p w')
   \<and> (GetBlockByHeight x c height w = Returns (Some b, None) w' \<longrightarrow>
      GetBlockHeaderByHeight x c height w = Returns (Some (BlockHeader b), None) w')
   \<and> (GetBlockByHeight x c height w = Returns (block, Some e) w' \<longrightarrow>
      GetBlockHeaderByHeight x c height w = Returns (None, Some e) w')
   \<and> (GetBlockByHeight x c height w = Panics p w' \<longrightarrow>
      GetBlockHeaderByHeight x c height w = Panics p w')
   \<and> GetAccountAtLatestBlock x c address w = GetAccount x c address w"
  by (simp add: GetLatestBlockHeader_def GetBlockHeaderByID_def GetBlockHeaderByHeight_def
      GetAccountAtLatestBlock_def)

theorem header_methods_follow_block_methods_witness:
  "GetLatestBlockHeader test_extern (NewClient canned_handler) True fresh =
     Returns (Some (BlockHeader (block_of 2)), None)
       \<lparr>hstate = 1, calls = [Call_getBlockByHeight ''sealed'']\<rparr>
   \<and> GetBlockHeaderByID test_extern (NewClient canned_handler) (Identifier [0xAB]) fresh =
     Returns (Some (BlockHeader (block_of 1)), None)
       \<lparr>hstate = 1, calls = [Call_getBlockByID ''ab'']\<rparr>
   \<and> GetBlockHeaderByHeight test_extern (NewClient canned_handler) 7 fresh =
     Returns (Some (BlockHeader (block_of 2)), None)
       \<lparr>hstate = 1, calls = [Call_getBlockByHeight ''7'']\<rparr>
   \<and> GetLatestBlockHeader test_extern (NewClient failing_handler) False fresh =
     Returns (None, Some (ErrorString ''unavailable''))
       \<lparr>hstate = 1, calls = [Call_getBlockByHeight ''finalized'']\<rparr>
   \<and> GetBlockHeaderByHeight test_extern (NewClient empty_handler) 7 fresh =
     Panics (IndexOutOfRange 0 0) \<lparr>hstate = 1, calls = [Call_getBlockByHeight ''7'']\<rparr>"
  using
    header_methods_follow_block_methods [where x = test_extern
      and c = "NewClient canned_handler" and isSealed = True and blockID = "Identifier [0xAB]"
      and height = 7 and w = fresh and b = "block_of 2"
      and w' = "\<lparr>hstate = 1, calls = [Call_getBlockByHeight ''sealed'']\<rparr>"]
    header_methods_follow_block_methods [where x = test_extern
      and c = "NewClient canned_handler" and blockID = "Identifier [0xAB]"
      and w = fresh and b = "block_of 1"
      and w' = "\<lparr>hstate = 1, calls = [Call_getBlockByID ''ab'']\<rparr>"]
    header_methods_follow_block_methods [where x = test_extern
      and c = "NewClient canned_handler" and height = 7
      and w = fresh and b = "block_of 2"
      and w' = "\<lparr>hstate = 1, calls = [Call_getBlockByHeight ''7'']\<rparr>"]
    header_methods_follow_block_methods [where x = test_extern
      and c = "NewClient failing_handler" and isSealed = False
      and w = fresh and block = None and e = "ErrorString ''unavailable''"
      and w' = "\<lparr>hstate = 1, calls = [Call_getBlockByHeight ''finalized'']\<rparr>"]
    header_methods_follow_block_methods [where x = test_extern
      and c = "NewClient empty_handler" and height = 7
      and w = fresh and p = "IndexOutOfRange 0 0"
      and w' = "\<lparr>hstate = 1, calls = [Call_getBlockByHeight ''7'']\<rparr>"]
  by (simp add: canned_GetLatestBlock canned_GetBlockByID canned_GetBlockByHeight
      failing_GetLatestBlock empty_GetBlockByHeight)

end
